theory Spec2Isabelle
  imports Main "HOL-Library.AList"
begin

section \<open>The migration utility of \<open>src/migrate.ts\<close>\<close>

text \<open>
  The class \<open>Migrate\<close> stages the rows of every MySQL table as a JSON file, generates one
  mongoose schema file per staged file, and finally reads the staged files back.
  The embedding follows the source line by line.  What lies outside the file is taken as it
  is used there:
  \<^item> the database (\<open>./configs/dbconfig\<close>) is a pair of functions from a table name to the
    outcome of \<open>select * from t\<close> and of \<open>describe t\<close>; a rejected query is \<open>Inl\<close> of the
    driver's error value;
  \<^item> the lookup table \<open>./utils/datatypes\<close> is a partial function from a base type name to
    the text its entry interpolates to;
  \<^item> \<open>JSON.stringify\<close> and \<open>JSON.parse\<close> are parameters;
  \<^item> a directory is a listing of (file name, content) pairs in \<open>readdirSync\<close> order, or
    absent; it holds regular files only.  The order of a listing is the order of the list,
    and a new file is put last;
  \<^item> a write stream is kept with the chunks it still has to write; what it does to the disk
    happens after the call that opened it, in an order the program does not fix.
  Names are strings of ASCII characters, on which \<open>toUpperCase_char\<close> is exact.
\<close>

subsection \<open>String primitives of JavaScript\<close>

text \<open>
  \<open>s.split(sep)\<close> for a separator of one character.  The result is never empty (the empty
  string splits into one empty segment), so the second branch of the \<open>case\<close> is never taken.
\<close>

fun js_split :: "char \<Rightarrow> string \<Rightarrow> string list" where
  "js_split sep [] = [[]]"
| "js_split sep (c # cs) =
     (if c = sep then [] # js_split sep cs
      else (case js_split sep cs of
              seg # segs \<Rightarrow> (c # seg) # segs
            | [] \<Rightarrow> [[c]]))"

text \<open>\<open>segments.join('')\<close>.\<close>

definition js_join :: "string list \<Rightarrow> string" where
  "js_join segments = concat segments"

text \<open>\<open>toUpperCase\<close> on one ASCII character.\<close>

definition toUpperCase_char :: "char \<Rightarrow> char" where
  "toUpperCase_char c =
     (case map_of (zip ''abcdefghijklmnopqrstuvwxyz'' ''ABCDEFGHIJKLMNOPQRSTUVWXYZ'') c of
        Some u \<Rightarrow> u
      | None \<Rightarrow> c)"

text \<open>\<open>s.slice(0, 1).toUpperCase() + s.slice(1)\<close>; the empty string stays empty.\<close>

definition capitalize_first :: "string \<Rightarrow> string" where
  "capitalize_first s = map toUpperCase_char (take 1 s) @ drop 1 s"

subsection \<open>Name normalisation (lines 92 to 97)\<close>

text \<open>Line 92: \<open>schemafile.split('.')[0]\<close>, the table name that is described.\<close>

definition table_of_schemafile :: "string \<Rightarrow> string" where
  "table_of_schemafile schemafile = hd (js_split CHR ''.'' schemafile)"

text \<open>Lines 94 to 97, applied to the table name.\<close>

definition normalize_modelname :: "string \<Rightarrow> string" where
  "normalize_modelname modelname =
     (let joined = (if CHR ''_'' \<in> set modelname
                    then js_join (js_split CHR ''_'' modelname)
                    else modelname)
      in capitalize_first joined)"

definition modelname_of_schemafile :: "string \<Rightarrow> string" where
  "modelname_of_schemafile schemafile = normalize_modelname (table_of_schemafile schemafile)"

text \<open>
  The transform in the words of the specification: remove the underscore separators, then
  capitalise the first character of the result.
\<close>

definition spec_candidate_name :: "string \<Rightarrow> string" where
  "spec_candidate_name t =
     (case filter (\<lambda>c. c \<noteq> CHR ''_'') t of
        [] \<Rightarrow> []
      | c # cs \<Rightarrow> toUpperCase_char c # cs)"

subsection \<open>Field descriptors (lines 110 to 118)\<close>

text \<open>One row of \<open>describe t\<close>, with the driver's field names.\<close>

record field =
  Field :: string
  Type :: string
  Null :: string
  Default :: "string option"

text \<open>Line 111: the type name up to the first opening parenthesis.\<close>

definition datatype_of :: "string \<Rightarrow> string" where
  "datatype_of ty = (if CHR ''('' \<in> set ty then hd (js_split CHR ''('' ty) else ty)"

text \<open>Line 114: \<open>${datatypes[datatype]}\<close>; a missing property interpolates as \<open>undefined\<close>.\<close>

definition type_text :: "(string \<Rightarrow> string option) \<Rightarrow> field \<Rightarrow> string" where
  "type_text datatypes f =
     (case datatypes (datatype_of (Type f)) of
        Some tag \<Rightarrow> tag
      | None \<Rightarrow> ''undefined'')"

text \<open>Line 115.\<close>

definition required_text :: "field \<Rightarrow> string" where
  "required_text f = (if Null f = ''YES'' then ''false'' else ''true'')"

text \<open>Line 116; a \<open>null\<close> default interpolates as \<open>null\<close>.\<close>

definition default_text :: "field \<Rightarrow> string" where
  "default_text f =
     (case Default f of
        Some d \<Rightarrow> (if d = ''CURRENT_TIMESTAMP'' then ''Date.now'' else d)
      | None \<Rightarrow> ''null'')"

text \<open>
  Lines 112 to 117: the text one column adds to \<open>modeldefinition\<close>, with the line breaks and
  the indentation of the template (20 and 28 spaces).
\<close>

definition field_text :: "(string \<Rightarrow> string option) \<Rightarrow> field \<Rightarrow> string" where
  "field_text datatypes f =
     ''\<newline>                    '' @ Field f @ '': {\<newline>''
     @ ''                            type: '' @ type_text datatypes f @ '',\<newline>''
     @ ''                            required: '' @ required_text f @ '',\<newline>''
     @ ''                            default: '' @ default_text f @ '',\<newline>''
     @ ''                    },''"

text \<open>Lines 108 to 118: the loop over the columns.\<close>

definition modeldefinition :: "(string \<Rightarrow> string option) \<Rightarrow> field list \<Rightarrow> string" where
  "modeldefinition datatypes definition = concat (map (field_text datatypes) definition)"

text \<open>The chunks of the three \<open>model.write\<close> calls: lines 106, 120 and 121.\<close>

definition schema_import :: string where
  "schema_import = ''import { Schema, model } from 'mongoose';\<newline>\<newline>''"

definition schema_const :: "(string \<Rightarrow> string option) \<Rightarrow> string \<Rightarrow> field list \<Rightarrow> string" where
  "schema_const datatypes modelname definition =
     ''const '' @ modelname @ '' = new Schema({'' @ modeldefinition datatypes definition @ ''});''"

definition schema_export :: "string \<Rightarrow> string" where
  "schema_export modelname =
     ''\<newline>\<newline>\<newline>\<newline>export default model('' @ [CHR 0x27] @ modelname @ [CHR 0x27]
     @ '', '' @ modelname @ '');\<newline>''"

text \<open>The three chunks one after the other: the text of a schema file written undisturbed.\<close>

definition schema_text :: "(string \<Rightarrow> string option) \<Rightarrow> string \<Rightarrow> field list \<Rightarrow> string" where
  "schema_text datatypes modelname definition =
     schema_import @ schema_const datatypes modelname definition @ schema_export modelname"

subsection \<open>Errors, the file system and the object\<close>

text \<open>
  What \<open>fs\<close> throws, and what an operation of the class throws: an \<open>Error\<close> of the source
  with its message, an error of \<open>fs\<close>, the \<open>SyntaxError\<close> of \<open>JSON.parse\<close>, or the value a
  database query was rejected with, passed on as it is.
\<close>

datatype fs_error = ENOENT | EEXIST

datatype 'e error = Error string | Fs fs_error | SyntaxError | Rejected 'e

type_synonym directory = "(string \<times> string) list"

definition readdirSync :: "directory option \<Rightarrow> fs_error + string list" where
  "readdirSync dir = (case dir of None \<Rightarrow> Inl ENOENT | Some d \<Rightarrow> Inr (map fst d))"

definition unlinkSync :: "string \<Rightarrow> directory option \<Rightarrow> fs_error + directory option" where
  "unlinkSync file dir =
     (case dir of
        None \<Rightarrow> Inl ENOENT
      | Some d \<Rightarrow>
          if file \<in> set (map fst d)
          then Inr (Some (filter (\<lambda>entry. fst entry \<noteq> file) d))
          else Inl ENOENT)"

definition mkdirSync :: "directory option \<Rightarrow> fs_error + directory option" where
  "mkdirSync dir = (case dir of None \<Rightarrow> Inr (Some []) | Some d \<Rightarrow> Inl EEXIST)"

text \<open>A write replaces the content of an existing file where it stands, or adds the file.\<close>

definition writeFileSync ::
  "string \<Rightarrow> string \<Rightarrow> directory option \<Rightarrow> fs_error + directory option" where
  "writeFileSync file content dir =
     (case dir of
        None \<Rightarrow> Inl ENOENT
      | Some d \<Rightarrow> Inr (Some (AList.update file content d)))"

definition readFileSync :: "string \<Rightarrow> directory option \<Rightarrow> fs_error + string" where
  "readFileSync file dir =
     (case dir of
        None \<Rightarrow> Inl ENOENT
      | Some d \<Rightarrow> (case map_of d file of None \<Rightarrow> Inl ENOENT | Some content \<Rightarrow> Inr content))"

text \<open>\<open>Map.prototype.set\<close>: an existing key keeps its place, a new key goes last.\<close>

definition map_set :: "string \<Rightarrow> string \<Rightarrow> (string \<times> string) list \<Rightarrow> (string \<times> string) list" where
  "map_set key val m = AList.update key val m"

text \<open>
  A write stream of \<open>fs.createWriteStream(path)\<close> (flag \<open>w\<close>, no start position): the path, the
  position of its own file descriptor once the file is open (\<open>None\<close> before), and the chunks
  passed to \<open>write\<close> that are not on disk yet.  Opening and writing are asynchronous: the call
  that creates the stream and the calls of \<open>write\<close> only queue the work.
\<close>

record stream =
  path :: string
  position :: "nat option"
  pending :: "string list"

definition createWriteStream :: "string \<Rightarrow> stream" where
  "createWriteStream file = \<lparr>path = file, position = None, pending = []\<rparr>"

definition stream_write :: "string \<Rightarrow> stream \<Rightarrow> stream" where
  "stream_write chunk s = s\<lparr>pending := pending s @ [chunk]\<rparr>"

text \<open>
  A write of a chunk at position \<open>p\<close> of a file: the bytes are replaced from \<open>p\<close> on, what lies
  behind the chunk stays, and a gap between the end of the file and \<open>p\<close> reads as zero bytes.
\<close>

fun write_at :: "nat \<Rightarrow> string \<Rightarrow> string \<Rightarrow> string" where
  "write_at 0 chunk content = chunk @ drop (length chunk) content"
| "write_at (Suc p) chunk [] = CHR 0x00 # write_at p chunk []"
| "write_at (Suc p) chunk (c # content) = c # write_at p chunk content"

text \<open>
  The next action of a stream on the disk.  A stream that is not open yet opens its file,
  which creates it or truncates it to length zero; an open stream writes its next chunk at
  the position of its descriptor and advances the position.  There is no action without the
  directory (the stream then reports the failure by an event) and none for an open stream
  with nothing to write; a write to a file that was removed meanwhile does not show in the
  directory.
\<close>

definition stream_step :: "stream \<Rightarrow> directory option \<Rightarrow> (stream \<times> directory option) option" where
  "stream_step s dir =
     (case dir of
        None \<Rightarrow> None
      | Some d \<Rightarrow>
          (case position s of
             None \<Rightarrow> Some (s\<lparr>position := Some 0\<rparr>, Some (AList.update (path s) [] d))
           | Some p \<Rightarrow>
               (case pending s of
                  [] \<Rightarrow> None
                | chunk # rest \<Rightarrow>
                    (case map_of d (path s) of
                       None \<Rightarrow>
                         Some (s\<lparr>position := Some (p + length chunk), pending := rest\<rparr>, Some d)
                     | Some content \<Rightarrow>
                         Some (s\<lparr>position := Some (p + length chunk), pending := rest\<rparr>,
                               Some (AList.update (path s) (write_at p chunk content) d))))))"

text \<open>
  A schedule names, action by action, the stream (by its place in the list of streams) whose
  next action reaches the disk.  The actions of one stream happen in their order; the
  program does not fix the order between the actions of different streams.  (Node may hand
  several queued chunks to the file in one call; a schedule in which these writes of the
  stream follow each other covers that.)
\<close>

fun drain :: "nat list \<Rightarrow> stream list \<Rightarrow> directory option
    \<Rightarrow> (stream list \<times> directory option) option" where
  "drain [] ss dir = Some (ss, dir)"
| "drain (i # schedule) ss dir =
     (if i < length ss
      then (case stream_step (ss ! i) dir of
              None \<Rightarrow> None
            | Some (s', dir') \<Rightarrow> drain schedule (ss[i := s']) dir')
      else None)"

text \<open>The schedule in which every stream does all its work before the next one starts.\<close>

definition actions_left :: "stream \<Rightarrow> nat" where
  "actions_left s =
     (case position s of None \<Rightarrow> Suc (length (pending s)) | Some p \<Rightarrow> length (pending s))"

fun in_order :: "nat \<Rightarrow> stream list \<Rightarrow> nat list" where
  "in_order i [] = []"
| "in_order i (s # ss) = replicate (actions_left s) i @ in_order (Suc i) ss"

text \<open>A stream that was not open, after all its work: everything written, nothing left.\<close>

definition drained :: "stream \<Rightarrow> stream" where
  "drained s = s\<lparr>position := Some (length (concat (pending s))), pending := []\<rparr>"

text \<open>
  The database: \<open>show full tables where Table_Type = 'BASE TABLE'\<close> reduced to the first
  column of each row (lines 32 to 35), \<open>select * from t\<close> and \<open>describe t\<close>.
\<close>

record ('r, 'e) database =
  show_tables :: "'e + string list"
  select_all :: "string \<Rightarrow> 'e + 'r"
  describe :: "string \<Rightarrow> 'e + field list"

text \<open>
  The fields of the object (lines 15 to 18), with the two directories standing for what is
  stored under the paths \<open>datafilesdir\<close> and \<open>modelsdirectory\<close>, what \<open>console.log\<close> has
  printed in \<open>populateMongo\<close>, and the write streams opened so far, in the order in which
  they were created (none is ever ended).  \<open>models\<close> is \<open>None\<close> while it is \<open>undefined\<close>.
\<close>

record 'r migrate =
  models :: "string list option"
  modelschemas :: "(string \<times> string) list"
  datafilesdir :: "directory option"
  modelsdirectory :: "directory option"
  console :: "'r list"
  streams :: "stream list"

text \<open>The constructor (lines 20 to 24), on a given file system.\<close>

definition new_Migrate :: "directory option \<Rightarrow> directory option \<Rightarrow> 'r migrate" where
  "new_Migrate datafiles mongomodels =
     \<lparr>models = None, modelschemas = [], datafilesdir = datafiles,
      modelsdirectory = mongomodels, console = [], streams = []\<rparr>"

subsection \<open>\<open>retrieveModels\<close> (lines 31 to 36)\<close>

definition retrieveModels ::
  "('r, 'e) database \<Rightarrow> 'r migrate \<Rightarrow> ('e error + unit) \<times> 'r migrate" where
  "retrieveModels db w =
     (case show_tables db of
        Inl e \<Rightarrow> (Inl (Rejected e), w)
      | Inr names \<Rightarrow> (Inr (), w\<lparr>models := Some names\<rparr>))"

subsection \<open>\<open>retrieveMysqlData\<close> (lines 43 to 69)\<close>

text \<open>The loops of lines 50 to 52 and 85 to 87: the first failing \<open>unlinkSync\<close> ends the loop.\<close>

fun unlink_each :: "string list \<Rightarrow> directory option \<Rightarrow> (fs_error + unit) \<times> directory option" where
  "unlink_each [] dir = (Inr (), dir)"
| "unlink_each (file # files) dir =
     (case unlinkSync file dir of
        Inl e \<Rightarrow> (Inl e, dir)
      | Inr dir' \<Rightarrow> unlink_each files dir')"

text \<open>Line 55, the \<open>catch\<close> block: whatever was thrown in the \<open>try\<close> block, make the directory.\<close>

definition catch_mkdir :: "'r migrate \<Rightarrow> ('e error + unit) \<times> 'r migrate" where
  "catch_mkdir w =
     (case mkdirSync (datafilesdir w) of
        Inl e \<Rightarrow> (Inl (Fs e), w)
      | Inr dir' \<Rightarrow> (Inr (), w\<lparr>datafilesdir := dir'\<rparr>))"

text \<open>Lines 47 to 56.\<close>

definition clean_datafilesdir :: "'r migrate \<Rightarrow> ('e error + unit) \<times> 'r migrate" where
  "clean_datafilesdir w =
     (case readdirSync (datafilesdir w) of
        Inl e \<Rightarrow> catch_mkdir w
      | Inr files \<Rightarrow>
          (case unlink_each files (datafilesdir w) of
             (Inl e, dir') \<Rightarrow> catch_mkdir (w\<lparr>datafilesdir := dir'\<rparr>)
           | (Inr u, dir') \<Rightarrow> (Inr (), w\<lparr>datafilesdir := dir'\<rparr>)))"

text \<open>Lines 58 to 61: a rejected query ends the loop with what the query was rejected with.\<close>

fun stage_each ::
  "('r, 'e) database \<Rightarrow> ('r \<Rightarrow> string) \<Rightarrow> string list \<Rightarrow> 'r migrate
     \<Rightarrow> ('e error + unit) \<times> 'r migrate" where
  "stage_each db stringify [] w = (Inr (), w)"
| "stage_each db stringify (model # rest) w =
     (case select_all db model of
        Inl e \<Rightarrow> (Inl (Rejected e), w)
      | Inr modelData \<Rightarrow>
          (case writeFileSync (model @ ''.json'') (stringify modelData) (datafilesdir w) of
             Inl e \<Rightarrow> (Inl (Fs e), w)
           | Inr dir' \<Rightarrow> stage_each db stringify rest (w\<lparr>datafilesdir := dir'\<rparr>)))"

text \<open>
  The whole operation.  The message of lines 62 to 68 goes to the console with the uptime of
  the process in it and is left out.
\<close>

definition retrieveMysqlData ::
  "('r, 'e) database \<Rightarrow> ('r \<Rightarrow> string) \<Rightarrow> 'r migrate \<Rightarrow> ('e error + unit) \<times> 'r migrate" where
  "retrieveMysqlData db stringify w =
     (case models w of
        None \<Rightarrow> (Inl (Error ''Call retrieveModels to get MySQL models!''), w)
      | Some ms \<Rightarrow>
          (case clean_datafilesdir w of
             (Inl e, w') \<Rightarrow> (Inl e, w')
           | (Inr u, w') \<Rightarrow> stage_each db stringify ms w'))"

subsection \<open>\<open>generateMongoSchemas\<close> (lines 76 to 124)\<close>

text \<open>Lines 82 to 89: every error is caught and dropped.\<close>

definition clear_modelsdirectory :: "'r migrate \<Rightarrow> 'r migrate" where
  "clear_modelsdirectory w =
     (case readdirSync (modelsdirectory w) of
        Inl e \<Rightarrow> w
      | Inr models' \<Rightarrow> w\<lparr>modelsdirectory := snd (unlink_each models' (modelsdirectory w))\<rparr>)"

text \<open>Lines 100 to 104: \<open>mkdirSync\<close> with its error dropped.\<close>

definition ensure_modelsdirectory :: "directory option \<Rightarrow> directory option" where
  "ensure_modelsdirectory dir = (case mkdirSync dir of Inl e \<Rightarrow> dir | Inr dir' \<Rightarrow> dir')"

text \<open>
  Lines 105 to 121: a new stream on \<open>modelname.ts\<close> and the three calls of \<open>write\<close>.  The stream
  is neither ended nor awaited, and nothing is thrown here.
\<close>

definition model_stream :: "(string \<Rightarrow> string option) \<Rightarrow> string \<Rightarrow> field list \<Rightarrow> stream" where
  "model_stream datatypes modelname definition =
     stream_write (schema_export modelname)
       (stream_write (schema_const datatypes modelname definition)
          (stream_write schema_import (createWriteStream (modelname @ ''.ts''))))"

text \<open>
  Lines 91 to 123: a rejected \<open>describe\<close> ends the loop.  The loop leaves the streams it has
  created behind; their work on the disk is not part of it.
\<close>

fun generate_each ::
  "('r, 'e) database \<Rightarrow> (string \<Rightarrow> string option) \<Rightarrow> string list \<Rightarrow> 's migrate
     \<Rightarrow> ('e error + unit) \<times> 's migrate" where
  "generate_each db datatypes [] w = (Inr (), w)"
| "generate_each db datatypes (schemafile # rest) w =
     (case describe db (table_of_schemafile schemafile) of
        Inl e \<Rightarrow> (Inl (Rejected e), w)
      | Inr definition \<Rightarrow>
          (let modelname = normalize_modelname (table_of_schemafile schemafile);
               w1 = w\<lparr>modelschemas := map_set schemafile modelname (modelschemas w)\<rparr>;
               w2 = w1\<lparr>modelsdirectory := ensure_modelsdirectory (modelsdirectory w1)\<rparr>;
               w3 = w2\<lparr>streams := streams w2 @ [model_stream datatypes modelname definition]\<rparr>
           in generate_each db datatypes rest w3))"

definition generateMongoSchemas ::
  "('r, 'e) database \<Rightarrow> (string \<Rightarrow> string option) \<Rightarrow> 's migrate
     \<Rightarrow> ('e error + unit) \<times> 's migrate" where
  "generateMongoSchemas db datatypes w =
     (case readdirSync (datafilesdir w) of
        Inl e \<Rightarrow> (Inl (Fs e), w)
      | Inr schemafiles \<Rightarrow>
          if length schemafiles < 1 then (Inl (Error ''Empty directory!''), w)
          else generate_each db datatypes schemafiles (clear_modelsdirectory w))"

subsection \<open>\<open>populateMongo\<close> (lines 132 to 139)\<close>

text \<open>Lines 134 to 137: read the staged file of the entry, parse it, print it.\<close>

fun populate_each ::
  "(string \<Rightarrow> 'r option) \<Rightarrow> (string \<times> string) list \<Rightarrow> 'r migrate
     \<Rightarrow> ('e error + unit) \<times> 'r migrate" where
  "populate_each parse [] w = (Inr (), w)"
| "populate_each parse (datafile # rest) w =
     (case readFileSync (fst datafile) (datafilesdir w) of
        Inl e \<Rightarrow> (Inl (Fs e), w)
      | Inr content \<Rightarrow>
          (case parse content of
             None \<Rightarrow> (Inl SyntaxError, w)
           | Some modeldata \<Rightarrow> populate_each parse rest (w\<lparr>console := console w @ [modeldata]\<rparr>)))"

definition populateMongo ::
  "(string \<Rightarrow> 'r option) \<Rightarrow> 'r migrate \<Rightarrow> ('e error + unit) \<times> 'r migrate" where
  "populateMongo parse w =
     (if length (modelschemas w) \<noteq> 0 then populate_each parse (modelschemas w) w
      else (Inr (), w))"

subsection \<open>The whole pipeline and the databases of the examples\<close>

text \<open>
  The driver calls the operations in the order discover, stage, generate; an operation that
  throws ends the run.
\<close>

definition pipeline ::
  "('r, 'e) database \<Rightarrow> ('r \<Rightarrow> string) \<Rightarrow> (string \<Rightarrow> string option) \<Rightarrow> 'r migrate
     \<Rightarrow> ('e error + unit) \<times> 'r migrate" where
  "pipeline db stringify datatypes w =
     (case retrieveModels db w of
        (Inl e, w1) \<Rightarrow> (Inl e, w1)
      | (Inr u, w1) \<Rightarrow>
          (case retrieveMysqlData db stringify w1 of
             (Inl e, w2) \<Rightarrow> (Inl e, w2)
           | (Inr u, w2) \<Rightarrow> generateMongoSchemas db datatypes w2))"

text \<open>
  The object once every stream has done its work, one stream after the other in the order
  of their creation.
\<close>

definition settle :: "'r migrate \<Rightarrow> 'r migrate" where
  "settle w =
     (case drain (in_order 0 (streams w)) (streams w) (modelsdirectory w) of
        None \<Rightarrow> w
      | Some (ss, dir) \<Rightarrow> w\<lparr>streams := ss, modelsdirectory := dir\<rparr>)"

text \<open>
  A database with the tables \<open>order_items\<close> and \<open>users\<close>; rows are kept as their JSON text and
  a rejected query carries the code of the server's error.
\<close>

definition example_db :: "(string, string) database" where
  "example_db =
     \<lparr>show_tables = Inr [''order_items'', ''users''],
      select_all = (\<lambda>t. if t = ''users'' then Inr ''[u]''
                         else if t = ''order_items'' then Inr ''[o]''
                         else Inl ''ER_NO_SUCH_TABLE''),
      describe = (\<lambda>t. if t = ''users''
                        then Inr [\<lparr>Field = ''id'', Type = ''int(11)'', Null = ''NO'', Default = None\<rparr>,
                                  \<lparr>Field = ''email'', Type = ''varchar(255)'', Null = ''YES'',
                                    Default = None\<rparr>]
                       else if t = ''order_items''
                        then Inr [\<lparr>Field = ''qty'', Type = ''int(11)'', Null = ''NO'',
                                    Default = Some ''1''\<rparr>]
                       else Inl ''ER_NO_SUCH_TABLE'')\<rparr>"

text \<open>The same database after the table \<open>order_items\<close> and the column \<open>email\<close> were dropped.\<close>

definition example_db_later :: "(string, string) database" where
  "example_db_later =
     \<lparr>show_tables = Inr [''users''],
      select_all = (\<lambda>t. if t = ''users'' then Inr ''[u]'' else Inl ''ER_NO_SUCH_TABLE''),
      describe = (\<lambda>t. if t = ''users''
                        then Inr [\<lparr>Field = ''id'', Type = ''int(11)'', Null = ''NO'', Default = None\<rparr>]
                       else Inl ''ER_NO_SUCH_TABLE'')\<rparr>"

text \<open>
  A database with two tables whose names differ by an underscore only; the first has one
  column more.
\<close>

definition collision_db :: "(string, string) database" where
  "collision_db =
     \<lparr>show_tables = Inr [''order_items'', ''orderitems''],
      select_all = (\<lambda>t. if t = ''order_items'' then Inr ''[o]''
                         else if t = ''orderitems'' then Inr ''[p]''
                         else Inl ''ER_NO_SUCH_TABLE''),
      describe = (\<lambda>t. if t = ''order_items''
                        then Inr [\<lparr>Field = ''qty'', Type = ''int(11)'', Null = ''NO'',
                                    Default = Some ''1''\<rparr>,
                                  \<lparr>Field = ''sku'', Type = ''varchar(32)'', Null = ''YES'',
                                    Default = None\<rparr>]
                       else if t = ''orderitems''
                        then Inr [\<lparr>Field = ''id'', Type = ''int(11)'', Null = ''NO'',
                                    Default = None\<rparr>]
                       else Inl ''ER_NO_SUCH_TABLE'')\<rparr>"

text \<open>A lookup table for the examples.\<close>

definition example_datatypes :: "string \<Rightarrow> string option" where
  "example_datatypes = [''int'' \<mapsto> ''Number'', ''varchar'' \<mapsto> ''String'']"

text \<open>
  A new object after \<open>retrieveModels\<close>, on a staging directory that holds one old file; the
  same with a table in the list that the database does not have; an object after staging
  the two colliding tables.
\<close>

definition example_discovered :: "string migrate" where
  "example_discovered =
     snd (retrieveModels example_db (new_Migrate (Some [(''old.json'', ''[x]'')]) None))"

definition example_ghost :: "string migrate" where
  "example_ghost = example_discovered\<lparr>models := Some [''users'', ''ghost'', ''order_items'']\<rparr>"

definition collision_staged :: "string migrate" where
  "collision_staged =
     \<lparr>models = Some [''order_items'', ''orderitems''], modelschemas = [],
      datafilesdir = Some [(''order_items.json'', ''[o]''), (''orderitems.json'', ''[p]'')],
      modelsdirectory = None, console = [], streams = []\<rparr>"

text \<open>A lookup table without an entry for \<open>varchar\<close>.\<close>

definition int_datatypes :: "string \<Rightarrow> string option" where
  "int_datatypes = [''int'' \<mapsto> ''Number'']"

text \<open>The object after staging the table \<open>users\<close>.\<close>

definition users_staged :: "string migrate" where
  "users_staged =
     \<lparr>models = Some [''users''], modelschemas = [],
      datafilesdir = Some [(''users.json'', ''[u]'')], modelsdirectory = None, console = [],
      streams = []\<rparr>"

text \<open>
  Two runs of the pipeline on one object: the first on \<open>example_db\<close> from an empty file
  system, the second after the streams of the first have done their work and the table
  \<open>order_items\<close> was dropped.  \<open>collision_generated\<close> is the object when schema generation
  returns for the two colliding tables.
\<close>

definition first_run :: "string migrate" where
  "first_run = snd (pipeline example_db id example_datatypes (new_Migrate None None))"

definition second_run :: "string migrate" where
  "second_run = snd (pipeline example_db_later id example_datatypes (settle first_run))"

definition collision_generated :: "string migrate" where
  "collision_generated = snd (generateMongoSchemas collision_db example_datatypes collision_staged)"

section \<open>Auxiliary facts\<close>

subsection \<open>Splitting and joining\<close>

lemma js_split_nonempty: "js_split sep s \<noteq> []"
  by (induction s) (auto split: list.splits)

lemma hd_js_split: "hd (js_split sep s) = takeWhile (\<lambda>c. c \<noteq> sep) s"
  by (induction s) (auto split: list.splits simp: js_split_nonempty)

lemma concat_js_split: "concat (js_split sep s) = filter (\<lambda>c. c \<noteq> sep) s"
proof (induction s)
  case Nil
  show ?case by simp
next
  case (Cons c cs)
  then show ?case by (auto split: list.splits simp: js_split_nonempty)
qed

lemma normalize_modelname_filter:
  "normalize_modelname t = capitalize_first (filter (\<lambda>c. c \<noteq> CHR ''_'') t)"
proof (cases "CHR ''_'' \<in> set t")
  case True
  then show ?thesis by (simp add: normalize_modelname_def js_join_def concat_js_split)
next
  case False
  then have "filter (\<lambda>c. c \<noteq> CHR ''_'') t = t" by (induction t) auto
  with False show ?thesis by (simp add: normalize_modelname_def)
qed

lemma capitalize_first_cases:
  "capitalize_first s = (case s of [] \<Rightarrow> [] | c # cs \<Rightarrow> toUpperCase_char c # cs)"
  by (cases s) (simp_all add: capitalize_first_def)

lemma takeWhile_json:
  "CHR ''.'' \<notin> set t \<Longrightarrow> takeWhile (\<lambda>c. c \<noteq> CHR ''.'') (t @ ''.json'') = t"
  by (induction t) auto

lemmas name_defs = modelname_of_schemafile_def table_of_schemafile_def normalize_modelname_def
  js_join_def capitalize_first_def toUpperCase_char_def

lemma example_names:
  "table_of_schemafile ''users.json'' = ''users''"
  "table_of_schemafile ''order_items.json'' = ''order_items''"
  "table_of_schemafile ''orderitems.json'' = ''orderitems''"
  "normalize_modelname ''users'' = ''Users''"
  "normalize_modelname ''order_items'' = ''Orderitems''"
  "normalize_modelname ''orderitems'' = ''Orderitems''"
  by (simp_all add: name_defs)

subsection \<open>Repeated updates of an association list\<close>

lemma fold_update_keys:
  "set (map fst (fold (\<lambda>x. AList.update (k x) (v x)) xs al)) = set (map fst al) \<union> k ` set xs"
  by (induction xs arbitrary: al) (auto simp: dom_update)

lemma fold_update_distinct:
  "distinct (map fst al) \<Longrightarrow> distinct (map fst (fold (\<lambda>x. AList.update (k x) (v x)) xs al))"
  by (induction xs arbitrary: al) (simp_all add: distinct_update)

lemma fold_update_other:
  "n \<notin> k ` set xs \<Longrightarrow> map_of (fold (\<lambda>x. AList.update (k x) (v x)) xs al) n = map_of al n"
  by (induction xs arbitrary: al) (simp_all add: update_conv')

lemma fold_update_last:
  assumes "xs = pre @ x # post" and "\<forall>y\<in>set post. k y \<noteq> k x"
  shows "map_of (fold (\<lambda>x. AList.update (k x) (v x)) xs al) (k x) = Some (v x)"
proof -
  have "k x \<notin> k ` set post" using assms(2) by auto
  then show ?thesis
    by (simp add: assms(1) fold_update_other update_conv')
qed

lemma last_occurrence_mapped:
  assumes "f \<in> set files"
  shows "map_of (fold (\<lambda>f. AList.update f (v f)) files al) f = Some (v f)"
proof -
  from assms obtain pre post where files: "files = pre @ f # post" and "f \<notin> set post"
    by (auto dest: split_list_last)
  then have "\<forall>y\<in>set post. y \<noteq> f" by auto
  from fold_update_last [where k = "\<lambda>f. f" and v = v, OF files this]
  show ?thesis .
qed

subsection \<open>Clearing and staging\<close>

lemma unlink_each_distinct:
  "distinct (map fst d) \<Longrightarrow> unlink_each (map fst d) (Some d) = (Inr (), Some [])"
proof (induction d)
  case Nil
  show ?case by simp
next
  case (Cons entry d)
  from Cons.prems have "fst entry \<notin> fst ` set d" by simp
  then have "\<forall>e\<in>set d. fst e \<noteq> fst entry" by (metis image_eqI)
  then have "filter (\<lambda>e. fst e \<noteq> fst entry) d = d"
    by (simp add: filter_id_conv)
  with Cons show ?case by (simp add: unlinkSync_def)
qed

lemma clean_datafilesdir_ok:
  assumes "\<forall>d. datafilesdir w = Some d \<longrightarrow> distinct (map fst d)"
  shows "clean_datafilesdir w = (Inr (), w\<lparr>datafilesdir := Some []\<rparr>)"
proof (cases "datafilesdir w")
  case None
  then show ?thesis
    by (simp add: clean_datafilesdir_def readdirSync_def catch_mkdir_def mkdirSync_def)
next
  case (Some d)
  with assms have "unlink_each (map fst d) (Some d) = (Inr (), Some [])"
    by (simp add: unlink_each_distinct)
  with Some show ?thesis
    by (simp add: clean_datafilesdir_def readdirSync_def)
qed

lemma stage_each_prefix:
  assumes "datafilesdir w = Some d" and "\<forall>t\<in>set pre. \<exists>rows. select_all db t = Inr rows"
  shows "stage_each db stringify (pre @ rest) w =
         stage_each db stringify rest
           (w\<lparr>datafilesdir := Some (fold (\<lambda>t. AList.update (t @ ''.json'')
                 (stringify (projr (select_all db t)))) pre d)\<rparr>)"
  using assms
proof (induction pre arbitrary: w d)
  case Nil
  have "w\<lparr>datafilesdir := datafilesdir w\<rparr> = w" by simp
  with Nil have "w\<lparr>datafilesdir := Some d\<rparr> = w" by simp
  then show ?case by simp
next
  case (Cons t pre)
  from Cons.prems obtain rows where r: "select_all db t = Inr rows" by auto
  let ?d1 = "AList.update (t @ ''.json'') (stringify rows) d"
  have "stage_each db stringify ((t # pre) @ rest) w =
        stage_each db stringify (pre @ rest) (w\<lparr>datafilesdir := Some ?d1\<rparr>)"
    using Cons.prems(1) r by (simp add: writeFileSync_def)
  also have "\<dots> = stage_each db stringify rest
      (w\<lparr>datafilesdir := Some ?d1\<rparr>\<lparr>datafilesdir := Some (fold (\<lambda>t. AList.update (t @ ''.json'')
                 (stringify (projr (select_all db t)))) pre ?d1)\<rparr>)"
    using Cons.prems(2) by (intro Cons.IH) simp_all
  finally show ?case using r by simp
qed

lemma stage_each_all:
  assumes "datafilesdir w = Some d" and "\<forall>t\<in>set T. \<exists>rows. select_all db t = Inr rows"
  shows "stage_each db stringify T w =
         (Inr (), w\<lparr>datafilesdir := Some (fold (\<lambda>t. AList.update (t @ ''.json'')
                 (stringify (projr (select_all db t)))) T d)\<rparr>)"
  using stage_each_prefix [OF assms, of stringify "[]"] by simp

lemma staged_content:
  assumes "t \<in> set T" and "select_all db t = Inr rows"
  shows "map_of (fold (\<lambda>t. AList.update (t @ ''.json'') (stringify (projr (select_all db t)))) T d)
           (t @ ''.json'') = Some (stringify rows)"
proof -
  from assms(1) obtain pre post where T: "T = pre @ t # post" and "t \<notin> set post"
    by (auto dest: split_list_last)
  then have "\<forall>y\<in>set post. y @ ''.json'' \<noteq> t @ ''.json''" by auto
  from fold_update_last [where k = "\<lambda>t. t @ ''.json''"
      and v = "\<lambda>t. stringify (projr (select_all db t))", OF T this] assms(2)
  show ?thesis by simp
qed

subsection \<open>Streams that do their work one after the other\<close>

lemma write_at_end: "write_at (length content) chunk content = content @ chunk"
  by (induction content) simp_all

lemma drain_append:
  "drain (a @ b) ss dir =
     (case drain a ss dir of None \<Rightarrow> None | Some (ss', dir') \<Rightarrow> drain b ss' dir')"
  by (induction a arbitrary: ss dir) (auto split: option.splits)

lemma drain_writes:
  assumes "k < length ss" and "ss ! k = s" and "position s = Some p" and "pending s = cs"
    and "map_of d (path s) = Some content" and "length content = p"
  shows "drain (replicate (length cs) k) ss (Some d) =
           Some (ss[k := s\<lparr>position := Some (p + length (concat cs)), pending := []\<rparr>],
                 Some (AList.update (path s) (content @ concat cs) d))"
  using assms
proof (induction cs arbitrary: ss s p d content)
  case Nil
  then have a: "s\<lparr>position := Some p, pending := []\<rparr> = s" by (cases s) simp
  have b: "ss[k := s] = ss" using Nil.prems(2) by (metis list_update_id)
  have c: "AList.update (path s) content d = d" using Nil.prems(5) by (rule update_triv)
  have "Some (ss[k := s\<lparr>position := Some (p + length (concat ([] :: string list))), pending := []\<rparr>],
              Some (AList.update (path s) (content @ concat []) d)) = Some (ss, Some d)"
    by (simp add: a b c)
  then show ?case by simp
next
  case (Cons c cs)
  let ?s' = "s\<lparr>position := Some (p + length c), pending := cs\<rparr>"
  let ?d' = "AList.update (path s) (content @ c) d"
  have "write_at p c content = content @ c"
    using Cons.prems(6) write_at_end [of content c] by simp
  then have step: "stream_step s (Some d) = Some (?s', Some ?d')"
    using Cons.prems by (simp add: stream_step_def)
  have "drain (replicate (length cs) k) (ss[k := ?s']) (Some ?d') =
          Some ((ss[k := ?s'])[k := ?s'\<lparr>position := Some (p + length c + length (concat cs)),
                                          pending := []\<rparr>],
                Some (AList.update (path ?s') ((content @ c) @ concat cs) ?d'))"
    using Cons.prems by (intro Cons.IH) (simp_all add: update_conv')
  with step Cons.prems(1,2) show ?case
    by (simp add: update_last add.assoc)
qed

lemma drain_stream:
  assumes "k < length ss" and "ss ! k = s" and "position s = None"
  shows "drain (replicate (actions_left s) k) ss (Some d) =
           Some (ss[k := drained s], Some (AList.update (path s) (concat (pending s)) d))"
proof -
  let ?s0 = "s\<lparr>position := Some 0\<rparr>"
  let ?d0 = "AList.update (path s) [] d"
  have "drain (replicate (length (pending s)) k) (ss[k := ?s0]) (Some ?d0) =
          Some ((ss[k := ?s0])[k := ?s0\<lparr>position := Some (0 + length (concat (pending s))),
                                         pending := []\<rparr>],
                Some (AList.update (path ?s0) ([] @ concat (pending s)) ?d0))"
    using assms(1) by (intro drain_writes) (simp_all add: update_conv')
  with assms show ?thesis
    by (simp add: actions_left_def stream_step_def update_last drained_def)
qed

lemma drain_in_order:
  assumes "\<forall>s\<in>set todo. position s = None"
  shows "drain (in_order (length done) todo) (done @ todo) (Some d) =
           Some (done @ map drained todo,
                 Some (fold (\<lambda>s. AList.update (path s) (concat (pending s))) todo d))"
  using assms
proof (induction todo arbitrary: "done" d)
  case Nil
  show ?case by simp
next
  case (Cons s todo)
  let ?d1 = "AList.update (path s) (concat (pending s)) d"
  have one: "drain (replicate (actions_left s) (length done)) (done @ s # todo) (Some d) =
               Some ((done @ s # todo)[length done := drained s], Some ?d1)"
    using Cons.prems by (intro drain_stream) simp_all
  have upd: "(done @ s # todo)[length done := drained s] = (done @ [drained s]) @ todo"
    by simp
  have rest: "drain (in_order (length (done @ [drained s])) todo) ((done @ [drained s]) @ todo) (Some ?d1) =
           Some ((done @ [drained s]) @ map drained todo,
                 Some (fold (\<lambda>s. AList.update (path s) (concat (pending s))) todo ?d1))"
    using Cons.prems by (intro Cons.IH) simp
  show ?case
    using one rest unfolding upd by (simp add: drain_append)
qed

lemma model_stream_fields:
  "path (model_stream datatypes m def) = m @ ''.ts''"
  "position (model_stream datatypes m def) = None"
  "concat (pending (model_stream datatypes m def)) = schema_text datatypes m def"
  by (simp_all add: model_stream_def stream_write_def createWriteStream_def schema_text_def)

subsection \<open>The loop of schema generation\<close>

lemma generate_each_Some:
  assumes "modelsdirectory w = Some md"
    and "\<forall>f\<in>set files. \<exists>def. describe db (table_of_schemafile f) = Inr def"
  shows "generate_each db datatypes files w =
     (Inr (), w\<lparr>modelschemas :=
                  fold (\<lambda>f. AList.update f (modelname_of_schemafile f)) files (modelschemas w),
                streams :=
                  streams w @ map (\<lambda>f. model_stream datatypes (modelname_of_schemafile f)
                                          (projr (describe db (table_of_schemafile f)))) files\<rparr>)"
  using assms
proof (induction files arbitrary: w)
  case Nil
  have "w\<lparr>modelschemas := modelschemas w, streams := streams w\<rparr> = w" by simp
  with Nil show ?case by simp
next
  case (Cons f files)
  from Cons.prems obtain def where d: "describe db (table_of_schemafile f) = Inr def" by auto
  let ?m = "modelname_of_schemafile f"
  let ?w3 = "w\<lparr>modelschemas := AList.update f ?m (modelschemas w),
               streams := streams w @ [model_stream datatypes ?m def]\<rparr>"
  have e: "ensure_modelsdirectory (modelsdirectory w) = modelsdirectory w"
    using Cons.prems(1) by (simp add: ensure_modelsdirectory_def mkdirSync_def)
  have step: "generate_each db datatypes (f # files) w = generate_each db datatypes files ?w3"
    using d by (simp add: Let_def e map_set_def modelname_of_schemafile_def)
  have "generate_each db datatypes files ?w3 =
     (Inr (), ?w3\<lparr>modelschemas :=
                  fold (\<lambda>f. AList.update f (modelname_of_schemafile f)) files (modelschemas ?w3),
                streams :=
                  streams ?w3 @ map (\<lambda>f. model_stream datatypes (modelname_of_schemafile f)
                                          (projr (describe db (table_of_schemafile f)))) files\<rparr>)"
    using Cons.prems by (intro Cons.IH) simp_all
  with step d show ?case by simp
qed

lemma generate_each_nonempty:
  assumes "files \<noteq> []"
    and "\<forall>f\<in>set files. \<exists>def. describe db (table_of_schemafile f) = Inr def"
  shows "generate_each db datatypes files w =
     (Inr (), w\<lparr>modelschemas :=
                  fold (\<lambda>f. AList.update f (modelname_of_schemafile f)) files (modelschemas w),
                modelsdirectory :=
                  Some (case modelsdirectory w of None \<Rightarrow> [] | Some md \<Rightarrow> md),
                streams :=
                  streams w @ map (\<lambda>f. model_stream datatypes (modelname_of_schemafile f)
                                          (projr (describe db (table_of_schemafile f)))) files\<rparr>)"
proof -
  let ?md = "case modelsdirectory w of None \<Rightarrow> [] | Some md \<Rightarrow> md"
  let ?w0 = "w\<lparr>modelsdirectory := Some ?md\<rparr>"
  from assms(1) obtain f rest where files: "files = f # rest" by (cases files) auto
  from assms(2) files obtain def where "describe db (table_of_schemafile f) = Inr def" by auto
  then have "generate_each db datatypes files w = generate_each db datatypes files ?w0"
    unfolding files
    by (cases "modelsdirectory w")
       (simp_all add: Let_def ensure_modelsdirectory_def mkdirSync_def)
  also have "\<dots> = (Inr (), ?w0\<lparr>modelschemas :=
                  fold (\<lambda>f. AList.update f (modelname_of_schemafile f)) files (modelschemas ?w0),
                streams :=
                  streams ?w0 @ map (\<lambda>f. model_stream datatypes (modelname_of_schemafile f)
                                          (projr (describe db (table_of_schemafile f)))) files\<rparr>)"
    using assms(2) by (intro generate_each_Some [where md = ?md]) simp_all
  finally show ?thesis by simp
qed

lemma clear_modelsdirectory_fields:
  "models (clear_modelsdirectory w) = models w"
  "modelschemas (clear_modelsdirectory w) = modelschemas w"
  "datafilesdir (clear_modelsdirectory w) = datafilesdir w"
  "console (clear_modelsdirectory w) = console w"
  "streams (clear_modelsdirectory w) = streams w"
  by (simp_all add: clear_modelsdirectory_def split: sum.splits)

lemma generateMongoSchemas_fields:
  assumes "datafilesdir w = Some d" and "d \<noteq> []"
    and "\<forall>f\<in>set (map fst d). \<exists>def. describe db (table_of_schemafile f) = Inr def"
  shows "\<exists>w' md0. generateMongoSchemas db datatypes w = (Inr (), w')
     \<and> modelschemas w' =
           fold (\<lambda>f. AList.update f (modelname_of_schemafile f)) (map fst d) (modelschemas w)
     \<and> modelsdirectory w' = Some md0
     \<and> streams w' =
           streams w @ map (\<lambda>f. model_stream datatypes (modelname_of_schemafile f)
                                   (projr (describe db (table_of_schemafile f)))) (map fst d)
     \<and> datafilesdir w' = datafilesdir w \<and> models w' = models w \<and> console w' = console w"
proof -
  let ?c = "clear_modelsdirectory w"
  have ne: "map fst d \<noteq> []" using assms(2) by simp
  have unfold: "generateMongoSchemas db datatypes w = generate_each db datatypes (map fst d) ?c"
    using assms(1,2) by (simp add: generateMongoSchemas_def readdirSync_def)
  show ?thesis
    unfolding unfold generate_each_nonempty [OF ne assms(3)]
    by (simp add: clear_modelsdirectory_fields)
qed

subsection \<open>The runs of the examples\<close>

lemmas run_defs = pipeline_def retrieveModels_def retrieveMysqlData_def generateMongoSchemas_def
  clean_datafilesdir_def catch_mkdir_def clear_modelsdirectory_def ensure_modelsdirectory_def
  readdirSync_def unlinkSync_def mkdirSync_def writeFileSync_def map_set_def
  new_Migrate_def

lemma first_run_eq:
  "first_run =
     \<lparr>models = Some [''order_items'', ''users''],
      modelschemas = [(''order_items.json'', ''Orderitems''), (''users.json'', ''Users'')],
      datafilesdir = Some [(''order_items.json'', ''[o]''), (''users.json'', ''[u]'')],
      modelsdirectory = Some [],
      console = [],
      streams =
        [model_stream example_datatypes ''Orderitems''
           [\<lparr>Field = ''qty'', Type = ''int(11)'', Null = ''NO'', Default = Some ''1''\<rparr>],
         model_stream example_datatypes ''Users''
           [\<lparr>Field = ''id'', Type = ''int(11)'', Null = ''NO'', Default = None\<rparr>,
            \<lparr>Field = ''email'', Type = ''varchar(255)'', Null = ''YES'', Default = None\<rparr>]]\<rparr>"
  by (simp add: first_run_def run_defs example_db_def Let_def example_names)

lemma settle_unopened:
  assumes "modelsdirectory w = Some d" and "\<forall>s\<in>set (streams w). position s = None"
  shows "settle w =
           w\<lparr>streams := map drained (streams w),
             modelsdirectory :=
               Some (fold (\<lambda>s. AList.update (path s) (concat (pending s))) (streams w) d)\<rparr>"
  using drain_in_order [OF assms(2), of "[]" d] assms(1) by (simp add: settle_def)

lemma settle_first_run:
  "settle first_run =
     \<lparr>models = Some [''order_items'', ''users''],
      modelschemas = [(''order_items.json'', ''Orderitems''), (''users.json'', ''Users'')],
      datafilesdir = Some [(''order_items.json'', ''[o]''), (''users.json'', ''[u]'')],
      modelsdirectory =
        Some [(''Orderitems.ts'', schema_text example_datatypes ''Orderitems''
                 [\<lparr>Field = ''qty'', Type = ''int(11)'', Null = ''NO'', Default = Some ''1''\<rparr>]),
              (''Users.ts'', schema_text example_datatypes ''Users''
                 [\<lparr>Field = ''id'', Type = ''int(11)'', Null = ''NO'', Default = None\<rparr>,
                  \<lparr>Field = ''email'', Type = ''varchar(255)'', Null = ''YES'', Default = None\<rparr>])],
      console = [],
      streams =
        [drained (model_stream example_datatypes ''Orderitems''
           [\<lparr>Field = ''qty'', Type = ''int(11)'', Null = ''NO'', Default = Some ''1''\<rparr>]),
         drained (model_stream example_datatypes ''Users''
           [\<lparr>Field = ''id'', Type = ''int(11)'', Null = ''NO'', Default = None\<rparr>,
            \<lparr>Field = ''email'', Type = ''varchar(255)'', Null = ''YES'', Default = None\<rparr>])]\<rparr>"
proof -
  have 1: "modelsdirectory first_run = Some []" by (simp add: first_run_eq)
  have 2: "\<forall>s\<in>set (streams first_run). position s = None"
    by (simp add: first_run_eq model_stream_fields)
  show ?thesis
    unfolding settle_unopened [OF 1 2] by (simp add: first_run_eq model_stream_fields)
qed

lemmas ex_defs = example_discovered_def example_db_def retrieveModels_def new_Migrate_def

section \<open>The claims\<close>

subsection \<open>Loading\<close>

text \<open>
  Claim C1 (the load operation writes every record of every mapped artifact as one document
  into the collection of the mapped model name).  \<open>populateMongo\<close> reads and parses the
  staged file of every entry and prints the rows; it writes nothing.  After the first run
  of the example the call returns with the two row sets on the console and every other
  field of the object, both directories and the streams as they were; there is no store of
  documents anywhere in the class.
\<close>

theorem populateMongo_only_prints:
  "populateMongo Some first_run
     = (Inr () :: string error + unit, first_run\<lparr>console := [''[o]'', ''[u]'']\<rparr>)"
  by (simp add: first_run_eq populateMongo_def readFileSync_def)

subsection \<open>Staging\<close>

text \<open>
  Claim C2 (after staging, the staging directory holds exactly one file \<open>t.json\<close> per
  discovered table \<open>t\<close> and no other file; what was there before is deleted; an absent
  directory is created).  Whenever the tables were discovered, every \<open>select\<close> is answered
  and the listing of the directory, if there is one, names each file once,
  \<open>retrieveMysqlData\<close> returns normally and changes the staging directory only: its file
  names are then exactly the names \<open>t.json\<close> of the discovered tables, each once, and each
  file holds the serialised rows of its table.  The directory may be absent at the start.
\<close>

theorem staging_postcondition:
  fixes db :: "('r, 'e) database"
  assumes "models w = Some T"
    and "\<forall>t\<in>set T. \<exists>rows. select_all db t = Inr rows"
    and "\<forall>d. datafilesdir w = Some d \<longrightarrow> distinct (map fst d)"
  shows "\<exists>d'. retrieveMysqlData db stringify w = (Inr (), w\<lparr>datafilesdir := Some d'\<rparr>)
           \<and> distinct (map fst d')
           \<and> set (map fst d') = (\<lambda>t. t @ ''.json'') ` set T
           \<and> (\<forall>t\<in>set T. \<forall>rows. select_all db t = Inr rows
                  \<longrightarrow> map_of d' (t @ ''.json'') = Some (stringify rows))"
proof -
  let ?d' = "fold (\<lambda>t. AList.update (t @ ''.json'') (stringify (projr (select_all db t)))) T []"
  have clean: "clean_datafilesdir w = (Inr () :: 'e error + unit, w\<lparr>datafilesdir := Some []\<rparr>)"
    using assms(3) by (rule clean_datafilesdir_ok)
  have "stage_each db stringify T (w\<lparr>datafilesdir := Some []\<rparr>)
        = (Inr (), w\<lparr>datafilesdir := Some []\<rparr>\<lparr>datafilesdir := Some ?d'\<rparr>)"
    using assms(2) by (intro stage_each_all) simp_all
  with clean assms(1) have run: "retrieveMysqlData db stringify w = (Inr (), w\<lparr>datafilesdir := Some ?d'\<rparr>)"
    by (simp add: retrieveMysqlData_def)
  have "distinct (map fst ?d')" by (rule fold_update_distinct) simp
  moreover have "set (map fst ?d') = (\<lambda>t. t @ ''.json'') ` set T"
    by (simp only: fold_update_keys) simp
  moreover have "\<forall>t\<in>set T. \<forall>rows. select_all db t = Inr rows
                  \<longrightarrow> map_of ?d' (t @ ''.json'') = Some (stringify rows)"
    by (auto intro: staged_content)
  ultimately show ?thesis using run by blast
qed

theorem staging_postcondition_witness:
  "\<exists>d'. retrieveMysqlData example_db id example_discovered =
           (Inr (), example_discovered\<lparr>datafilesdir := Some d'\<rparr>)
        \<and> set (map fst d') = {''users.json'', ''order_items.json''}
        \<and> map_of d' ''order_items.json'' = Some ''[o]''"
proof -
  have 1: "models example_discovered = Some [''order_items'', ''users'']"
    by (simp add: ex_defs)
  have 2: "\<forall>t\<in>set [''order_items'', ''users'']. \<exists>rows. select_all example_db t = Inr rows"
    by (simp add: example_db_def)
  have 3: "\<forall>d. datafilesdir example_discovered = Some d \<longrightarrow> distinct (map fst d)"
    by (simp add: ex_defs)
  have 4: "select_all example_db ''order_items'' = Inr ''[o]''"
    by (simp add: example_db_def)
  from staging_postcondition [OF 1 2 3, of id]
  obtain d' where run: "retrieveMysqlData example_db id example_discovered =
           (Inr (), example_discovered\<lparr>datafilesdir := Some d'\<rparr>)"
    and keys: "set (map fst d') = (\<lambda>t. t @ ''.json'') ` set [''order_items'', ''users'']"
    and content: "\<forall>t\<in>set [''order_items'', ''users'']. \<forall>rows. select_all example_db t = Inr rows
                  \<longrightarrow> map_of d' (t @ ''.json'') = Some (id rows)"
    by blast
  from keys have "set (map fst d') = {''users.json'', ''order_items.json''}" by auto
  moreover from content 4 have "map_of d' ''order_items.json'' = Some ''[o]''" by simp
  ultimately show ?thesis using run by blast
qed

text \<open>
  Claim C9, as amended (when the read of a table is rejected, staging stops there: no later
  table is staged, the files written for the earlier tables stay, and the operation throws
  the value the query was rejected with, unchanged).  The claim as stated also has the error
  carry the name of the offending table; the source adds nothing to what the database
  driver rejected the query with, and in the example the same error value comes back
  whichever table was missing.
\<close>

theorem staging_fail_fast:
  fixes db :: "('r, 'e) database"
  assumes "models w = Some (pre @ t # post)"
    and "\<forall>u\<in>set pre. \<exists>rows. select_all db u = Inr rows"
    and "select_all db t = Inl e"
    and "\<forall>d. datafilesdir w = Some d \<longrightarrow> distinct (map fst d)"
  shows "\<exists>d'. retrieveMysqlData db stringify w = (Inl (Rejected e), w\<lparr>datafilesdir := Some d'\<rparr>)
           \<and> set (map fst d') = (\<lambda>u. u @ ''.json'') ` set pre
           \<and> (\<forall>u\<in>set pre. \<forall>rows. select_all db u = Inr rows
                  \<longrightarrow> map_of d' (u @ ''.json'') = Some (stringify rows))"
proof -
  let ?d' = "fold (\<lambda>t. AList.update (t @ ''.json'') (stringify (projr (select_all db t)))) pre []"
  have clean: "clean_datafilesdir w = (Inr () :: 'e error + unit, w\<lparr>datafilesdir := Some []\<rparr>)"
    using assms(4) by (rule clean_datafilesdir_ok)
  have "stage_each db stringify (pre @ t # post) (w\<lparr>datafilesdir := Some []\<rparr>)
        = stage_each db stringify (t # post) (w\<lparr>datafilesdir := Some []\<rparr>\<lparr>datafilesdir := Some ?d'\<rparr>)"
    using assms(2) by (intro stage_each_prefix) simp_all
  with clean assms(1,3)
  have run: "retrieveMysqlData db stringify w = (Inl (Rejected e), w\<lparr>datafilesdir := Some ?d'\<rparr>)"
    by (simp add: retrieveMysqlData_def)
  have "set (map fst ?d') = (\<lambda>t. t @ ''.json'') ` set pre"
    by (simp only: fold_update_keys) simp
  moreover have "\<forall>u\<in>set pre. \<forall>rows. select_all db u = Inr rows
                  \<longrightarrow> map_of ?d' (u @ ''.json'') = Some (stringify rows)"
    by (auto intro: staged_content)
  ultimately show ?thesis using run by blast
qed

theorem staging_fail_fast_witness:
  "\<exists>d'. retrieveMysqlData example_db id example_ghost =
           (Inl (Rejected ''ER_NO_SUCH_TABLE''), example_ghost\<lparr>datafilesdir := Some d'\<rparr>)
        \<and> set (map fst d') = {''users.json''}
        \<and> map_of d' ''users.json'' = Some ''[u]''"
proof -
  have 1: "models example_ghost = Some ([''users''] @ ''ghost'' # [''order_items''])"
    by (simp add: example_ghost_def)
  have 2: "\<forall>u\<in>set [''users'']. \<exists>rows. select_all example_db u = Inr rows"
    by (simp add: example_db_def)
  have 3: "select_all example_db ''ghost'' = Inl ''ER_NO_SUCH_TABLE''"
    by (simp add: example_db_def)
  have 4: "\<forall>d. datafilesdir example_ghost = Some d \<longrightarrow> distinct (map fst d)"
    by (simp add: example_ghost_def ex_defs)
  have 5: "select_all example_db ''users'' = Inr ''[u]''"
    by (simp add: example_db_def)
  from staging_fail_fast [OF 1 2 3 4, of id]
  obtain d' where run: "retrieveMysqlData example_db id example_ghost =
           (Inl (Rejected ''ER_NO_SUCH_TABLE''), example_ghost\<lparr>datafilesdir := Some d'\<rparr>)"
    and keys: "set (map fst d') = (\<lambda>t. t @ ''.json'') ` set [''users'']"
    and content: "\<forall>t\<in>set [''users'']. \<forall>rows. select_all example_db t = Inr rows
                  \<longrightarrow> map_of d' (t @ ''.json'') = Some (id rows)"
    by blast
  from keys have "set (map fst d') = {''users.json''}" by simp
  moreover from content 5 have "map_of d' ''users.json'' = Some ''[u]''" by simp
  ultimately show ?thesis using run by blast
qed

theorem staging_error_counterexample:
  "fst (retrieveMysqlData example_db id example_ghost)
     = Inl (Rejected ''ER_NO_SUCH_TABLE'')
   \<and> fst (retrieveMysqlData example_db id
            (example_ghost\<lparr>models := Some [''users'', ''phantom'', ''order_items'']\<rparr>))
     = Inl (Rejected ''ER_NO_SUCH_TABLE'')"
  by (simp add: example_ghost_def ex_defs retrieveMysqlData_def clean_datafilesdir_def
      readdirSync_def unlinkSync_def writeFileSync_def)

subsection \<open>Names\<close>

text \<open>
  Claim C3, as amended (the normalisation maps \<open>user_profile\<close> to \<open>Userprofile\<close>, \<open>orders\<close>
  to \<open>Orders\<close>, and a name without an underscore to the same name with its first character
  in upper case).  The claim as stated has \<open>UserProfile\<close>: the source joins the segments
  as they are and puts only the first character of the joined name in upper case.
\<close>

theorem name_normalizer:
  "normalize_modelname ''user_profile'' = ''Userprofile''
   \<and> normalize_modelname ''orders'' = ''Orders''
   \<and> (CHR ''_'' \<notin> set s \<longrightarrow>
         normalize_modelname s = (case s of [] \<Rightarrow> [] | c # cs \<Rightarrow> toUpperCase_char c # cs))"
proof -
  have "normalize_modelname ''user_profile'' = ''Userprofile''" by (simp add: name_defs)
  moreover have "normalize_modelname ''orders'' = ''Orders''" by (simp add: name_defs)
  moreover have "CHR ''_'' \<notin> set s \<longrightarrow>
         normalize_modelname s = (case s of [] \<Rightarrow> [] | c # cs \<Rightarrow> toUpperCase_char c # cs)"
    by (simp add: normalize_modelname_def capitalize_first_cases)
  ultimately show ?thesis by blast
qed

theorem name_normalizer_witness:
  "CHR ''_'' \<notin> set ''invoices'' \<and> normalize_modelname ''invoices'' = ''Invoices''"
  using name_normalizer [of "''invoices''"] by (simp add: toUpperCase_char_def)

theorem name_normalizer_counterexample:
  "normalize_modelname ''user_profile'' \<noteq> ''UserProfile''"
  by (simp add: name_defs)

text \<open>
  Claim C4 (the candidate model name of a staged file is its table name with the
  underscores removed and the first character of the result in upper case; \<open>order_items\<close>
  gives \<open>Orderitems\<close>).  The table name the source takes from a file name is the part before
  the first dot, which for the file \<open>t.json\<close> of a table \<open>t\<close> without a dot is \<open>t\<close>; on
  it the split, join and slice of the source compute what the specification describes.
\<close>

theorem candidate_model_name:
  "modelname_of_schemafile schemafile
     = spec_candidate_name (takeWhile (\<lambda>c. c \<noteq> CHR ''.'') schemafile)
   \<and> (CHR ''.'' \<notin> set t \<longrightarrow> modelname_of_schemafile (t @ ''.json'') = spec_candidate_name t)
   \<and> modelname_of_schemafile ''order_items.json'' = ''Orderitems''"
proof -
  have general: "modelname_of_schemafile f = spec_candidate_name (takeWhile (\<lambda>c. c \<noteq> CHR ''.'') f)"
    for f
    by (simp add: modelname_of_schemafile_def table_of_schemafile_def hd_js_split
        normalize_modelname_filter capitalize_first_cases spec_candidate_name_def)
  moreover have "CHR ''.'' \<notin> set t \<longrightarrow> modelname_of_schemafile (t @ ''.json'') = spec_candidate_name t"
    by (simp add: general takeWhile_json)
  moreover have "modelname_of_schemafile ''order_items.json'' = ''Orderitems''"
    by (simp add: name_defs)
  ultimately show ?thesis by blast
qed

theorem candidate_model_name_witness:
  "CHR ''.'' \<notin> set ''user_profile''
   \<and> modelname_of_schemafile (''user_profile'' @ ''.json'') = ''Userprofile''"
  using candidate_model_name [of "''user_profile.json''" "''user_profile''"]
  by (simp add: spec_candidate_name_def toUpperCase_char_def)

subsection \<open>Field descriptors\<close>

text \<open>
  Claim C5, as amended (the default of a field is \<open>Date.now\<close> when the column's default is
  \<open>CURRENT_TIMESTAMP\<close>, is the column's default verbatim when it has another one, and is
  the text \<open>null\<close> when the column has none; the entry of the field always has a
  \<open>default\<close> line).  The claim as stated has the field without a default in the last case.
\<close>

theorem default_of_field:
  "default_text (c\<lparr>Default := Some ''CURRENT_TIMESTAMP''\<rparr>) = ''Date.now''
   \<and> (d \<noteq> ''CURRENT_TIMESTAMP'' \<longrightarrow> default_text (c\<lparr>Default := Some d\<rparr>) = d)
   \<and> default_text (c\<lparr>Default := None\<rparr>) = ''null''
   \<and> field_text datatypes c =
        ''\<newline>                    '' @ Field c @ '': {\<newline>''
        @ ''                            type: '' @ type_text datatypes c @ '',\<newline>''
        @ ''                            required: '' @ required_text c @ '',\<newline>''
        @ ''                            default: '' @ default_text c @ '',\<newline>''
        @ ''                    },''"
  by (simp add: default_text_def field_text_def)

theorem default_of_field_witness:
  "''1'' \<noteq> ''CURRENT_TIMESTAMP''
   \<and> default_text \<lparr>Field = ''qty'', Type = ''int(11)'', Null = ''NO'', Default = Some ''1''\<rparr> = ''1''"
  using default_of_field [of "\<lparr>Field = ''qty'', Type = ''int(11)'', Null = ''NO'', Default = None\<rparr>" "''1''"]
  by simp

theorem default_of_field_counterexample:
  "field_text example_datatypes
     \<lparr>Field = ''email'', Type = ''varchar(255)'', Null = ''YES'', Default = None\<rparr>
   = ''\<newline>                    email: {\<newline>                            type: String,\<newline>                            required: false,\<newline>                            default: null,\<newline>                    },''"
  by (simp add: field_text_def type_text_def required_text_def default_text_def
      datatype_of_def example_datatypes_def)

subsection \<open>Schema generation\<close>

text \<open>
  Claim C6 (on a staging directory without files, schema generation fails with the error
  of the empty directory and writes nothing).  The operation throws \<open>Empty directory!\<close> and
  the object and both directories are as before: no generated file is deleted and the
  mapping is unchanged.
\<close>

theorem empty_staging_fails:
  "datafilesdir w = Some [] \<Longrightarrow>
   generateMongoSchemas db datatypes w = (Inl (Error ''Empty directory!''), w)"
  by (simp add: generateMongoSchemas_def readdirSync_def)

theorem empty_staging_fails_witness:
  "datafilesdir ((settle first_run)\<lparr>datafilesdir := Some []\<rparr>) = Some []
   \<and> generateMongoSchemas example_db example_datatypes ((settle first_run)\<lparr>datafilesdir := Some []\<rparr>)
       = (Inl (Error ''Empty directory!''), (settle first_run)\<lparr>datafilesdir := Some []\<rparr>)"
  using empty_staging_fails
    [of "(settle first_run)\<lparr>datafilesdir := Some []\<rparr>" example_db example_datatypes]
  by simp

text \<open>
  Claim C7, as amended (the mapping is created empty with the object and never cleared; a
  schema generation in which every \<open>describe\<close> is answered sets one entry per staged file,
  the file name mapped to its model name, and leaves every other entry as it was, so that
  the keys afterwards are the staged files together with the keys recorded before).  The
  claim as stated has the mapping rebuilt from empty on every invocation: in the second run
  of the example the entry of \<open>order_items.json\<close> is still there although the staging
  directory holds \<open>users.json\<close> only.
\<close>

theorem mapping_after_generation:
  fixes db :: "('r, 'e) database" and w :: "'s migrate"
  assumes "datafilesdir w = Some d" and "d \<noteq> []"
    and "\<forall>f\<in>set (map fst d). \<exists>def. describe db (table_of_schemafile f) = Inr def"
  shows "\<exists>w'. generateMongoSchemas db datatypes w = (Inr (), w')
     \<and> set (map fst (modelschemas w')) = set (map fst (modelschemas w)) \<union> set (map fst d)
     \<and> (distinct (map fst (modelschemas w)) \<longrightarrow> distinct (map fst (modelschemas w')))
     \<and> (\<forall>f\<in>set (map fst d). map_of (modelschemas w') f = Some (modelname_of_schemafile f))
     \<and> (\<forall>f. f \<notin> set (map fst d) \<longrightarrow> map_of (modelschemas w') f = map_of (modelschemas w) f)"
proof -
  let ?ms = "fold (\<lambda>f. AList.update f (modelname_of_schemafile f)) (map fst d) (modelschemas w)"
  from generateMongoSchemas_fields [OF assms, of "datatypes"]
  obtain w' where run: "generateMongoSchemas db datatypes w = (Inr (), w')"
    and ms: "modelschemas w' = ?ms"
    by blast
  have "set (map fst ?ms) = set (map fst (modelschemas w)) \<union> set (map fst d)"
    using fold_update_keys [where k = "\<lambda>f. f" and v = modelname_of_schemafile] by simp
  moreover have "distinct (map fst (modelschemas w)) \<longrightarrow> distinct (map fst ?ms)"
    by (simp add: fold_update_distinct)
  moreover have "\<forall>f\<in>set (map fst d). map_of ?ms f = Some (modelname_of_schemafile f)"
    using last_occurrence_mapped [where v = modelname_of_schemafile] by blast
  moreover have "\<forall>f. f \<notin> set (map fst d) \<longrightarrow> map_of ?ms f = map_of (modelschemas w) f"
    using fold_update_other [where k = "\<lambda>f. f" and v = modelname_of_schemafile] by simp
  ultimately show ?thesis unfolding run ms [symmetric] by blast
qed

theorem mapping_after_generation_witness:
  "\<exists>w'. generateMongoSchemas collision_db example_datatypes collision_staged = (Inr (), w')
     \<and> set (map fst (modelschemas w')) = {''order_items.json'', ''orderitems.json''}
     \<and> distinct (map fst (modelschemas w'))
     \<and> map_of (modelschemas w') ''order_items.json'' = Some ''Orderitems''"
proof -
  have 1: "datafilesdir collision_staged
             = Some [(''order_items.json'', ''[o]''), (''orderitems.json'', ''[p]'')]"
    by (simp add: collision_staged_def)
  have 2: "[(''order_items.json'', ''[o]''), (''orderitems.json'', ''[p]'')] \<noteq> []" by simp
  have 3: "\<forall>f\<in>set (map fst [(''order_items.json'', ''[o]''), (''orderitems.json'', ''[p]'')]).
             \<exists>def. describe collision_db (table_of_schemafile f) = Inr def"
    by (simp add: collision_db_def example_names)
  from mapping_after_generation [OF 1 2 3, of example_datatypes]
  obtain w' where run: "generateMongoSchemas collision_db example_datatypes collision_staged = (Inr (), w')"
    and keys: "set (map fst (modelschemas w')) = set (map fst (modelschemas collision_staged))
                 \<union> set (map fst [(''order_items.json'', ''[o]''), (''orderitems.json'', ''[p]'')])"
    and dist: "distinct (map fst (modelschemas collision_staged)) \<longrightarrow> distinct (map fst (modelschemas w'))"
    and names: "\<forall>f\<in>set (map fst [(''order_items.json'', ''[o]''), (''orderitems.json'', ''[p]'')]).
                  map_of (modelschemas w') f = Some (modelname_of_schemafile f)"
    by blast
  from keys have "set (map fst (modelschemas w')) = {''order_items.json'', ''orderitems.json''}"
    by (simp add: collision_staged_def)
  moreover from dist have "distinct (map fst (modelschemas w'))"
    by (simp add: collision_staged_def)
  moreover from names have "map_of (modelschemas w') ''order_items.json'' = Some ''Orderitems''"
    by (simp add: modelname_of_schemafile_def example_names)
  ultimately show ?thesis using run by blast
qed

theorem stale_mapping_counterexample:
  "map fst (modelschemas second_run) = [''order_items.json'', ''users.json'']
   \<and> readdirSync (datafilesdir second_run) = Inr [''users.json'']"
  by (simp add: second_run_def settle_first_run run_defs example_db_later_def
      Let_def example_names)

text \<open>
  Claim C8, as amended (a column whose base type has no entry in the lookup table raises no
  error: its field is written with the type \<open>undefined\<close>, and schema generation returns
  normally whenever the staging directory has a file and every \<open>describe\<close> is answered,
  whatever the lookup table holds).  The claim as stated has an error for the unmapped type
  that ends the run; the source has no such error.
\<close>

theorem unmapped_type_written_as_undefined:
  fixes db :: "('r, 'e) database" and w :: "'s migrate"
  assumes "datafilesdir w = Some d" and "d \<noteq> []"
    and "\<forall>f\<in>set (map fst d). \<exists>def. describe db (table_of_schemafile f) = Inr def"
  shows "fst (generateMongoSchemas db datatypes w) = Inr ()
     \<and> (\<forall>c. datatypes (datatype_of (Type c)) = None \<longrightarrow>
            field_text datatypes c =
              ''\<newline>                    '' @ Field c @ '': {\<newline>''
              @ ''                            type: undefined,\<newline>''
              @ ''                            required: '' @ required_text c @ '',\<newline>''
              @ ''                            default: '' @ default_text c @ '',\<newline>''
              @ ''                    },'')"
proof -
  from generateMongoSchemas_fields [OF assms, of "datatypes"]
  obtain w' where "generateMongoSchemas db datatypes w = (Inr (), w')" by blast
  then have "fst (generateMongoSchemas db datatypes w) = Inr ()" by simp
  then show ?thesis by (simp add: field_text_def type_text_def)
qed

theorem unmapped_type_written_as_undefined_witness:
  "fst (generateMongoSchemas example_db int_datatypes users_staged) = Inr ()
   \<and> int_datatypes (datatype_of ''varchar(255)'') = None
   \<and> field_text int_datatypes
        \<lparr>Field = ''email'', Type = ''varchar(255)'', Null = ''YES'', Default = None\<rparr>
     = ''\<newline>                    email: {\<newline>                            type: undefined,\<newline>                            required: false,\<newline>                            default: null,\<newline>                    },''"
proof -
  let ?c = "\<lparr>Field = ''email'', Type = ''varchar(255)'', Null = ''YES'', Default = None\<rparr>"
  have 1: "datafilesdir users_staged = Some [(''users.json'', ''[u]'')]"
    by (simp add: users_staged_def)
  have 2: "[(''users.json'', ''[u]'')] \<noteq> []" by simp
  have 3: "\<forall>f\<in>set (map fst [(''users.json'', ''[u]'')]).
             \<exists>def. describe example_db (table_of_schemafile f) = Inr def"
    by (simp add: example_db_def example_names)
  have 4: "int_datatypes (datatype_of ''varchar(255)'') = None"
    by (simp add: int_datatypes_def datatype_of_def)
  from unmapped_type_written_as_undefined [OF 1 2 3, of int_datatypes]
  have run: "fst (generateMongoSchemas example_db int_datatypes users_staged) = Inr ()"
    and undef: "\<forall>c. int_datatypes (datatype_of (Type c)) = None \<longrightarrow>
            field_text int_datatypes c =
              ''\<newline>                    '' @ Field c @ '': {\<newline>''
              @ ''                            type: undefined,\<newline>''
              @ ''                            required: '' @ required_text c @ '',\<newline>''
              @ ''                            default: '' @ default_text c @ '',\<newline>''
              @ ''                    },''"
    by blast+
  from undef 4 have "field_text int_datatypes ?c =
              ''\<newline>                    '' @ Field ?c @ '': {\<newline>''
              @ ''                            type: undefined,\<newline>''
              @ ''                            required: '' @ required_text ?c @ '',\<newline>''
              @ ''                            default: '' @ default_text ?c @ '',\<newline>''
              @ ''                    },''"
    by simp
  then have "field_text int_datatypes ?c = ''\<newline>                    email: {\<newline>                            type: undefined,\<newline>                            required: false,\<newline>                            default: null,\<newline>                    },''"
    by (simp add: required_text_def default_text_def)
  with run 4 show ?thesis by blast
qed

theorem unmapped_type_counterexample:
  "fst (generateMongoSchemas example_db int_datatypes users_staged) = Inr ()
   \<and> readFileSync ''Users.ts''
         (modelsdirectory (settle (snd (generateMongoSchemas example_db int_datatypes users_staged))))
     = Inr ''import { Schema, model } from 'mongoose';\<newline>\<newline>const Users = new Schema({\<newline>                    id: {\<newline>                            type: Number,\<newline>                            required: true,\<newline>                            default: null,\<newline>                    },\<newline>                    email: {\<newline>                            type: undefined,\<newline>                            required: false,\<newline>                            default: null,\<newline>                    },});\<newline>\<newline>\<newline>\<newline>export default model('Users', Users);\<newline>''"
proof -
  let ?def = "[\<lparr>Field = ''id'', Type = ''int(11)'', Null = ''NO'', Default = None\<rparr>,
               \<lparr>Field = ''email'', Type = ''varchar(255)'', Null = ''YES'', Default = None\<rparr>]"
  have run: "generateMongoSchemas example_db int_datatypes users_staged =
               (Inr (), users_staged
                  \<lparr>modelschemas := [(''users.json'', ''Users'')],
                    modelsdirectory := Some [],
                    streams := [model_stream int_datatypes ''Users'' ?def]\<rparr>)"
    by (simp add: users_staged_def example_db_def run_defs Let_def example_names)
  have "schema_text int_datatypes ''Users'' ?def = ''import { Schema, model } from 'mongoose';\<newline>\<newline>const Users = new Schema({\<newline>                    id: {\<newline>                            type: Number,\<newline>                            required: true,\<newline>                            default: null,\<newline>                    },\<newline>                    email: {\<newline>                            type: undefined,\<newline>                            required: false,\<newline>                            default: null,\<newline>                    },});\<newline>\<newline>\<newline>\<newline>export default model('Users', Users);\<newline>''"
    by (simp add: int_datatypes_def schema_text_def schema_import_def schema_const_def
        schema_export_def modeldefinition_def field_text_def type_text_def required_text_def
        default_text_def datatype_of_def)
  then show ?thesis
    unfolding run
    by (simp add: settle_unopened [where d = "[]"] model_stream_fields readFileSync_def)
qed

text \<open>
  Claim C10, as amended (two staged files whose table names give one model name raise no
  error; both get their entry in the mapping, with the same model name; their schemas are
  written through two streams on the same schema file, the stream of the earlier file
  created first and neither awaited, and the file holds the schema of the later file when
  every stream does all its work before the next one starts).  Stated for any listing of
  the staging directory in which \<open>f1\<close> comes before \<open>f2\<close> and no file after \<open>f2\<close> has their
  model name \<open>m\<close>, on an object without streams from before.  The claim as stated has the
  later schema replace the earlier one whatever the streams do: when both files are opened
  before either is written, the shorter later schema is followed by the rest of the earlier.
\<close>

theorem collision_two_streams:
  fixes db :: "('r, 'e) database" and w :: "'s migrate"
  assumes "datafilesdir w = Some d"
    and "map fst d = pre @ f1 # mid @ f2 # post"
    and "f1 \<noteq> f2"
    and "modelname_of_schemafile f1 = m" and "modelname_of_schemafile f2 = m"
    and "\<forall>g\<in>set post. modelname_of_schemafile g \<noteq> m"
    and "\<forall>f\<in>set (map fst d). \<exists>def. describe db (table_of_schemafile f) = Inr def"
    and "describe db (table_of_schemafile f1) = Inr def1"
    and "describe db (table_of_schemafile f2) = Inr def2"
    and "streams w = []"
  shows "\<exists>w'. generateMongoSchemas db datatypes w = (Inr (), w')
     \<and> map_of (modelschemas w') f1 = Some m
     \<and> map_of (modelschemas w') f2 = Some m
     \<and> set (map fst (modelschemas w')) = set (map fst (modelschemas w)) \<union> set (map fst d)
     \<and> (distinct (map fst (modelschemas w)) \<longrightarrow> distinct (map fst (modelschemas w')))
     \<and> (\<exists>before between after.
           streams w' = before @ model_stream datatypes m def1 # between
                          @ model_stream datatypes m def2 # after)
     \<and> (\<exists>ss dir. drain (in_order 0 (streams w')) (streams w') (modelsdirectory w') = Some (ss, dir)
           \<and> readFileSync (m @ ''.ts'') dir = Inr (schema_text datatypes m def2))"
proof -
  let ?files = "map fst d"
  let ?ms = "fold (\<lambda>f. AList.update f (modelname_of_schemafile f)) ?files (modelschemas w)"
  let ?mk = "\<lambda>f. model_stream datatypes (modelname_of_schemafile f)
                    (projr (describe db (table_of_schemafile f)))"
  let ?k = "\<lambda>f. modelname_of_schemafile f @ ''.ts''"
  let ?v = "\<lambda>f. schema_text datatypes (modelname_of_schemafile f)
                   (projr (describe db (table_of_schemafile f)))"
  have ne: "d \<noteq> []" using assms(2) by auto
  from generateMongoSchemas_fields [OF assms(1) ne assms(7), of "datatypes"]
  obtain w' md0 where run: "generateMongoSchemas db datatypes w = (Inr (), w')"
    and ms: "modelschemas w' = ?ms"
    and md: "modelsdirectory w' = Some md0"
    and st: "streams w' = streams w @ map ?mk ?files"
    by blast
  have st': "streams w' = map ?mk ?files" using st assms(10) by simp
  have f1: "f1 \<in> set ?files" and f2: "f2 \<in> set ?files" using assms(2) by simp_all
  have m1: "map_of ?ms f1 = Some m"
    using last_occurrence_mapped [OF f1, where v = modelname_of_schemafile] assms(4) by simp
  have m2: "map_of ?ms f2 = Some m"
    using last_occurrence_mapped [OF f2, where v = modelname_of_schemafile] assms(5) by simp
  have keys: "set (map fst ?ms) = set (map fst (modelschemas w)) \<union> set ?files"
    using fold_update_keys [where k = "\<lambda>f. f" and v = modelname_of_schemafile] by simp
  have dist: "distinct (map fst (modelschemas w)) \<longrightarrow> distinct (map fst ?ms)"
    by (simp add: fold_update_distinct)
  have two: "\<exists>before between after.
           streams w' = before @ model_stream datatypes m def1 # between
                          @ model_stream datatypes m def2 # after"
  proof -
    have "streams w' = map ?mk pre @ ?mk f1 # map ?mk mid @ ?mk f2 # map ?mk post"
      unfolding st' assms(2) by simp
    then have "streams w' = map ?mk pre @ model_stream datatypes m def1 # map ?mk mid
                              @ model_stream datatypes m def2 # map ?mk post"
      using assms(4,5,8,9) by simp
    then show ?thesis by blast
  qed
  have unopened: "\<forall>s\<in>set (streams w'). position s = None"
    unfolding st' by (simp add: model_stream_fields)
  have folded: "fold (\<lambda>s. AList.update (path s) (concat (pending s))) (map ?mk ?files) md0
                  = fold (\<lambda>f. AList.update (?k f) (?v f)) ?files md0"
    by (simp add: fold_map comp_def model_stream_fields)
  have drained: "drain (in_order 0 (streams w')) (streams w') (modelsdirectory w')
                   = Some (map drained (streams w'),
                           Some (fold (\<lambda>f. AList.update (?k f) (?v f)) ?files md0))"
    using drain_in_order [OF unopened, of "[]" md0] md folded by (simp add: st')
  have "map_of (fold (\<lambda>f. AList.update (?k f) (?v f)) ?files md0) (m @ ''.ts'')
          = Some (schema_text datatypes m def2)"
  proof -
    have split: "?files = (pre @ f1 # mid) @ f2 # post" using assms(2) by simp
    have later: "\<forall>g\<in>set post. ?k g \<noteq> ?k f2" using assms(5,6) by simp
    from fold_update_last [where k = ?k and v = ?v, OF split later] assms(5,9)
    show ?thesis by simp
  qed
  then have last: "\<exists>ss dir. drain (in_order 0 (streams w')) (streams w') (modelsdirectory w')
                       = Some (ss, dir)
                     \<and> readFileSync (m @ ''.ts'') dir = Inr (schema_text datatypes m def2)"
    unfolding drained by (simp add: readFileSync_def)
  from m1 m2 keys dist have "map_of (modelschemas w') f1 = Some m
     \<and> map_of (modelschemas w') f2 = Some m
     \<and> set (map fst (modelschemas w')) = set (map fst (modelschemas w)) \<union> set (map fst d)
     \<and> (distinct (map fst (modelschemas w)) \<longrightarrow> distinct (map fst (modelschemas w')))"
    unfolding ms by blast
  with run two last show ?thesis by blast
qed

theorem collision_two_streams_witness:
  "\<exists>w'. generateMongoSchemas collision_db example_datatypes collision_staged = (Inr (), w')
     \<and> map_of (modelschemas w') ''order_items.json'' = Some ''Orderitems''
     \<and> map_of (modelschemas w') ''orderitems.json'' = Some ''Orderitems''
     \<and> (\<exists>ss dir. drain (in_order 0 (streams w')) (streams w') (modelsdirectory w') = Some (ss, dir)
           \<and> readFileSync ''Orderitems.ts'' dir
               = Inr (schema_text example_datatypes ''Orderitems''
                        [\<lparr>Field = ''id'', Type = ''int(11)'', Null = ''NO'', Default = None\<rparr>]))"
proof -
  let ?d = "[(''order_items.json'', ''[o]''), (''orderitems.json'', ''[p]'')]"
  have 1: "datafilesdir collision_staged = Some ?d"
    by (simp add: collision_staged_def)
  have 2: "map fst ?d = [] @ ''order_items.json'' # [] @ ''orderitems.json'' # []" by simp
  have 3: "''order_items.json'' \<noteq> ''orderitems.json''" by simp
  have 4: "modelname_of_schemafile ''order_items.json'' = ''Orderitems''"
    by (simp add: modelname_of_schemafile_def example_names)
  have 5: "modelname_of_schemafile ''orderitems.json'' = ''Orderitems''"
    by (simp add: modelname_of_schemafile_def example_names)
  have 6: "\<forall>g\<in>set []. modelname_of_schemafile g \<noteq> ''Orderitems''" by simp
  have 7: "\<forall>f\<in>set (map fst ?d). \<exists>def. describe collision_db (table_of_schemafile f) = Inr def"
    by (simp add: collision_db_def example_names)
  have 8: "describe collision_db (table_of_schemafile ''order_items.json'')
             = Inr [\<lparr>Field = ''qty'', Type = ''int(11)'', Null = ''NO'', Default = Some ''1''\<rparr>,
                    \<lparr>Field = ''sku'', Type = ''varchar(32)'', Null = ''YES'', Default = None\<rparr>]"
    by (simp add: collision_db_def example_names)
  have 9: "describe collision_db (table_of_schemafile ''orderitems.json'')
             = Inr [\<lparr>Field = ''id'', Type = ''int(11)'', Null = ''NO'', Default = None\<rparr>]"
    by (simp add: collision_db_def example_names)
  have 10: "streams collision_staged = []"
    by (simp add: collision_staged_def)
  from collision_two_streams [OF 1 2 3 4 5 6 7 8 9 10, of example_datatypes]
  obtain w' where "generateMongoSchemas collision_db example_datatypes collision_staged = (Inr (), w')"
    and "map_of (modelschemas w') ''order_items.json'' = Some ''Orderitems''"
    and "map_of (modelschemas w') ''orderitems.json'' = Some ''Orderitems''"
    and "\<exists>ss dir. drain (in_order 0 (streams w')) (streams w') (modelsdirectory w') = Some (ss, dir)
           \<and> readFileSync (''Orderitems'' @ ''.ts'') dir
               = Inr (schema_text example_datatypes ''Orderitems''
                        [\<lparr>Field = ''id'', Type = ''int(11)'', Null = ''NO'', Default = None\<rparr>])"
    by blast
  then show ?thesis by (intro exI [of _ w']) simp
qed

lemma collision_generated_eq:
  "generateMongoSchemas collision_db example_datatypes collision_staged =
     (Inr (), collision_staged
        \<lparr>modelschemas := [(''order_items.json'', ''Orderitems''),
                          (''orderitems.json'', ''Orderitems'')],
          modelsdirectory := Some [],
          streams :=
            [model_stream example_datatypes ''Orderitems''
               [\<lparr>Field = ''qty'', Type = ''int(11)'', Null = ''NO'', Default = Some ''1''\<rparr>,
                \<lparr>Field = ''sku'', Type = ''varchar(32)'', Null = ''YES'', Default = None\<rparr>],
             model_stream example_datatypes ''Orderitems''
               [\<lparr>Field = ''id'', Type = ''int(11)'', Null = ''NO'', Default = None\<rparr>]]\<rparr>)"
  by (simp add: collision_staged_def collision_db_def run_defs Let_def example_names)

theorem collision_last_writer_counterexample:
  "fst (generateMongoSchemas collision_db example_datatypes collision_staged) = Inr ()
   \<and> map_option snd (drain [0, 1, 0, 0, 0, 1, 1, 1] (streams collision_generated)
                        (modelsdirectory collision_generated))
     = Some (Some [(''Orderitems.ts'',
          ''import { Schema, model } from 'mongoose';\<newline>\<newline>const Orderitems = new Schema({\<newline>                    id: {\<newline>                            type: Number,\<newline>                            required: true,\<newline>                            default: null,\<newline>                    },});\<newline>\<newline>\<newline>\<newline>export default model('Orderitems', Orderitems);\<newline>ype: String,\<newline>                            required: false,\<newline>                            default: null,\<newline>                    },});\<newline>\<newline>\<newline>\<newline>export default model('Orderitems', Orderitems);\<newline>'')])
   \<and> map_option snd (drain [0, 1, 0, 0, 0, 1, 1, 1] (streams collision_generated)
                        (modelsdirectory collision_generated))
     \<noteq> Some (Some [(''Orderitems.ts'',
          schema_text example_datatypes ''Orderitems''
            [\<lparr>Field = ''id'', Type = ''int(11)'', Null = ''NO'', Default = None\<rparr>])])"
proof -
  have run: "fst (generateMongoSchemas collision_db example_datatypes collision_staged) = Inr ()"
    by (simp add: collision_generated_eq)
  have st: "streams collision_generated =
              [model_stream example_datatypes ''Orderitems''
                 [\<lparr>Field = ''qty'', Type = ''int(11)'', Null = ''NO'', Default = Some ''1''\<rparr>,
                  \<lparr>Field = ''sku'', Type = ''varchar(32)'', Null = ''YES'', Default = None\<rparr>],
               model_stream example_datatypes ''Orderitems''
                 [\<lparr>Field = ''id'', Type = ''int(11)'', Null = ''NO'', Default = None\<rparr>]]"
    and md: "modelsdirectory collision_generated = Some []"
    by (simp_all add: collision_generated_def collision_generated_eq)
  have mixed: "map_option snd (drain [0, 1, 0, 0, 0, 1, 1, 1] (streams collision_generated)
                        (modelsdirectory collision_generated))
     = Some (Some [(''Orderitems.ts'',
          ''import { Schema, model } from 'mongoose';\<newline>\<newline>const Orderitems = new Schema({\<newline>                    id: {\<newline>                            type: Number,\<newline>                            required: true,\<newline>                            default: null,\<newline>                    },});\<newline>\<newline>\<newline>\<newline>export default model('Orderitems', Orderitems);\<newline>ype: String,\<newline>                            required: false,\<newline>                            default: null,\<newline>                    },});\<newline>\<newline>\<newline>\<newline>export default model('Orderitems', Orderitems);\<newline>'')])"
    unfolding st md
    by (simp add: model_stream_def stream_write_def createWriteStream_def stream_step_def
        example_datatypes_def schema_import_def schema_const_def schema_export_def
        modeldefinition_def field_text_def type_text_def required_text_def default_text_def
        datatype_of_def)
  have differ: "schema_text example_datatypes ''Orderitems''
            [\<lparr>Field = ''id'', Type = ''int(11)'', Null = ''NO'', Default = None\<rparr>]
        \<noteq> ''import { Schema, model } from 'mongoose';\<newline>\<newline>const Orderitems = new Schema({\<newline>                    id: {\<newline>                            type: Number,\<newline>                            required: true,\<newline>                            default: null,\<newline>                    },});\<newline>\<newline>\<newline>\<newline>export default model('Orderitems', Orderitems);\<newline>ype: String,\<newline>                            required: false,\<newline>                            default: null,\<newline>                    },});\<newline>\<newline>\<newline>\<newline>export default model('Orderitems', Orderitems);\<newline>''"
    by (simp add: example_datatypes_def schema_text_def schema_import_def schema_const_def
        schema_export_def modeldefinition_def field_text_def type_text_def required_text_def
        default_text_def datatype_of_def)
  have "map_option snd (drain [0, 1, 0, 0, 0, 1, 1, 1] (streams collision_generated)
                        (modelsdirectory collision_generated))
     \<noteq> Some (Some [(''Orderitems.ts'',
          schema_text example_datatypes ''Orderitems''
            [\<lparr>Field = ''id'', Type = ''int(11)'', Null = ''NO'', Default = None\<rparr>])])"
    unfolding mixed using differ by simp
  with run mixed show ?thesis by (intro conjI)
qed

end
